theory Spec2Isabelle
  imports Main "HOL-Library.Word" "HOL-Library.Sublist"
begin

section \<open>Values shared by all handlers\<close>

text \<open>
  Go's \<open>byte\<close>, \<open>int64\<close>, \<open>int\<close> (64 bits on the platforms FUSE runs on) and
  \<open>uint64\<close> are words; \<open>sint\<close> reads a signed one. The length of a byte slice held in
  memory is read as an exact integer: it always fits an \<open>int\<close>.
\<close>

type_synonym byte = "8 word"
type_synonym int64 = "64 word"
type_synonym uint64 = "64 word"

text \<open>
  The error values the handlers tell apart: \<open>io.EOF\<close>, \<open>io.ErrUnexpectedEOF\<close>,
  \<open>fuse.ENOENT\<close>, an operating system error for which \<open>os.IsNotExist\<close> holds, and any
  other error. A Go \<open>error\<close> result is an \<open>error option\<close>, \<open>None\<close> being \<open>nil\<close>.
\<close>

datatype error = EOF | ErrUnexpectedEOF | fuse_ENOENT | ErrNotExist | ErrOther

definition os_IsNotExist :: "error option \<Rightarrow> bool" where
  "os_IsNotExist err = (err = Some ErrNotExist)"

text \<open>A handler either returns its \<open>error\<close> result or panics at run time.\<close>

datatype outcome = Returned "error option" | Panicked

section \<open>The transcode session: \<open>fileHandle\<close>\<close>

text \<open>
  The encoder's standard output pipe is a sequential source: the bytes it will still
  deliver, and how it ends once they are consumed (\<open>None\<close>: a clean end of file, \<open>Some e\<close>:
  reads fail with \<open>e\<close>). Reads block until data or the end arrives, so what a read of \<open>n\<close>
  bytes obtains is the next \<open>n\<close> pending bytes, or all of them when fewer are left.
\<close>

record pipe =
  pending :: "byte list"
  ending :: "error option"

text \<open>
  \<open>io.CopyN(dst, src, n)\<close> appends to \<open>dst\<close> up to \<open>n\<close> bytes read from \<open>src\<close>. It
  returns \<open>nil\<close> exactly when \<open>n\<close> bytes were written, the source's error when it failed,
  and \<open>io.EOF\<close> when the source ended early.
\<close>

definition io_CopyN :: "byte list \<Rightarrow> pipe \<Rightarrow> int \<Rightarrow> byte list \<times> pipe \<times> error option" where
  "io_CopyN dst src n =
     (let k = nat n;
          got = take k (pending src)
      in (dst @ got,
          src\<lparr>pending := drop k (pending src)\<rparr>,
          if length got = k then None
          else (case ending src of None \<Rightarrow> Some EOF | Some e \<Rightarrow> Some e)))"

text \<open>
  \<open>make([]byte, n)\<close> panics on a negative length, else gives \<open>n\<close> zero bytes (the
  limits of allocation are left out).
\<close>

definition make_bytes :: "int \<Rightarrow> byte list option" where
  "make_bytes n = (if n < 0 then None else Some (replicate (nat n) 0))"

text \<open>
  The slice expression \<open>b[lo:hi]\<close> panics unless \<open>0 \<le> lo \<le> hi\<close> and \<open>hi\<close> is within the
  slice (the handler only ever passes \<open>hi \<le> len(b)\<close>).
\<close>

definition go_slice :: "'a list \<Rightarrow> int \<Rightarrow> int \<Rightarrow> 'a list option" where
  "go_slice b lo hi =
     (if 0 \<le> lo \<and> lo \<le> hi \<and> hi \<le> int (length b)
      then Some (take (nat hi - nat lo) (drop (nat lo) b))
      else None)"

text \<open>
  The builtin \<open>copy(dst, src)\<close> overwrites the first \<open>min(len(dst), len(src))\<close> elements
  of \<open>dst\<close> and returns that count; \<open>dst\<close> keeps its length.
\<close>

definition go_copy :: "'a list \<Rightarrow> 'a list \<Rightarrow> 'a list \<times> nat" where
  "go_copy dst src =
     (let n = min (length dst) (length src) in (take n src @ drop n dst, n))"

record fileHandle =
  fh_name :: string
  fh_pipe :: pipe
  fh_buffer :: "byte list"
  fh_encoder :: string

record ReadRequest =
  req_Offset :: int64
  req_Size :: int64

record ReadResponse =
  resp_Data :: "byte list"

type_synonym sizes = "string \<rightharpoonup> uint64"

text \<open>
  \<open>fileHandle.Read\<close>, first part (``Fill buffer''): when the buffer is shorter than
  \<open>req.Offset + int64(req.Size)\<close>, the missing bytes are copied from the pipe. The result
  is the handle afterwards and the error of \<open>io.CopyN\<close>.
\<close>

definition fill_buffer :: "fileHandle \<Rightarrow> ReadRequest \<Rightarrow> fileHandle \<times> error option" where
  "fill_buffer fh req =
     (let want = sint (req_Offset req + req_Size req)
      in if int (length (fh_buffer fh)) < want
         then
           (let (buf1, pipe1, err) =
                  io_CopyN (fh_buffer fh) (fh_pipe fh) (want - int (length (fh_buffer fh)))
            in (fh\<lparr>fh_pipe := pipe1, fh_buffer := buf1\<rparr>, err))
         else (fh, None))"

text \<open>
  \<open>fileHandle.Read\<close>, second part: the bounds \<open>min\<close> and \<open>max\<close>, the response of
  \<open>req.Size\<close> bytes, the copy of \<open>buffer[min:max]\<close> into it, and the end-of-stream branch
  that stores the buffer length in \<open>allSizes\<close> under the handle's name.
\<close>

definition serve_slice ::
  "string \<Rightarrow> byte list \<Rightarrow> sizes \<Rightarrow> ReadRequest \<Rightarrow> ReadResponse
     \<Rightarrow> outcome \<times> ReadResponse \<times> sizes" where
  "serve_slice nm buf allSizes req resp =
     (let want = sint (req_Offset req + req_Size req);
          blen = int (length buf);
          minv = (if sint (req_Offset req) > blen then blen else sint (req_Offset req));
          maxv = (if want > blen then blen else want)
      in case make_bytes (sint (req_Size req)) of
           None \<Rightarrow> (Panicked, resp, allSizes)
         | Some data0 \<Rightarrow>
             (case go_slice buf minv maxv of
                None \<Rightarrow> (Panicked, resp\<lparr>resp_Data := data0\<rparr>, allSizes)
              | Some src \<Rightarrow>
                  (let (data, n) = go_copy data0 src
                   in if n = 0
                      then (Returned (Some EOF), resp\<lparr>resp_Data := data\<rparr>,
                            allSizes(nm \<mapsto> of_nat (length buf)))
                      else (Returned None, resp\<lparr>resp_Data := data\<rparr>, allSizes))))"

text \<open>
  \<open>fileHandle.Read\<close>. The state it touches is the handle (buffer and pipe), the response
  and the process-wide \<open>allSizes\<close> map; the result carries all three. An error of the copy
  other than \<open>io.EOF\<close> is returned at once.
\<close>

definition fileHandle_Read ::
  "fileHandle \<Rightarrow> sizes \<Rightarrow> ReadRequest \<Rightarrow> ReadResponse
     \<Rightarrow> outcome \<times> ReadResponse \<times> fileHandle \<times> sizes" where
  "fileHandle_Read fh allSizes req resp =
     (let (fh1, err) = fill_buffer fh req
      in if err \<noteq> None \<and> err \<noteq> Some EOF then (Returned err, resp, fh1, allSizes)
         else
           (let (out, resp', allSizes') =
                  serve_slice (fh_name fh1) (fh_buffer fh1) allSizes req resp
            in (out, resp', fh1, allSizes')))"

text \<open>
  A sequence of read requests served by one session, each with the fresh, empty response
  the transport hands to the handler.
\<close>

fun run_reads :: "fileHandle \<Rightarrow> sizes \<Rightarrow> ReadRequest list \<Rightarrow> fileHandle \<times> sizes" where
  "run_reads fh allSizes [] = (fh, allSizes)"
| "run_reads fh allSizes (req # reqs) =
     (case fileHandle_Read fh allSizes req \<lparr>resp_Data = []\<rparr> of
        (_, _, fh', allSizes') \<Rightarrow> run_reads fh' allSizes' reqs)"



text \<open>
  The slice of the specification, in its words: \<open>lo = min(offset, len(buffer))\<close>,
  \<open>hi = min(offset + length, len(buffer))\<close>, result \<open>buffer[lo:hi]\<close>.
\<close>

definition spec_slice :: "byte list \<Rightarrow> nat \<Rightarrow> nat \<Rightarrow> byte list" where
  "spec_slice buf off len =
     (let lo = min off (length buf); hi = min (off + len) (length buf)
      in take (hi - lo) (drop lo buf))"

text \<open>A request the kernel can issue: offset and size non-negative, their sum an \<open>int64\<close>.\<close>

definition wf_request :: "ReadRequest \<Rightarrow> bool" where
  "wf_request req =
     (0 \<le> sint (req_Offset req) \<and> 0 \<le> sint (req_Size req)
      \<and> sint (req_Offset req) + sint (req_Size req) < 2 ^ 63)"

text \<open>A pipe with nothing pending that ends cleanly: every further copy adds nothing.\<close>

definition drained :: "pipe \<Rightarrow> bool" where
  "drained p = (pending p = [] \<and> (ending p = None \<or> ending p = Some EOF))"

text \<open>
  A request is covered by a session when the buffer already reaches the end of the
  requested range, or the pipe is drained.
\<close>

definition covered :: "fileHandle \<Rightarrow> ReadRequest \<Rightarrow> bool" where
  "covered fh req =
     (sint (req_Offset req + req_Size req) \<le> int (length (fh_buffer fh))
      \<or> drained (fh_pipe fh))"

text \<open>
  How a later state of a session relates to an earlier one: the same name, a buffer that
  extends the earlier one, and no change at all once the pipe was drained.
\<close>

definition grows_to :: "fileHandle \<Rightarrow> fileHandle \<Rightarrow> bool" where
  "grows_to fh fh' =
     (fh_name fh' = fh_name fh \<and> prefix (fh_buffer fh) (fh_buffer fh')
      \<and> (drained (fh_pipe fh) \<longrightarrow> fh' = fh))"

section \<open>The operating system as the handlers see it\<close>

text \<open>
  \<open>os.FileInfo\<close> as far as the handlers read it: the name, whether the mode is a
  directory, a regular file or anything else, and the size.
\<close>

datatype FileMode = ModeDir | ModeRegular | ModeOther

record FileInfo =
  fi_Name :: string
  fi_Mode :: FileMode
  fi_Size :: int64

text \<open>
  An open \<open>*os.File\<close>: what \<open>Stat\<close> and \<open>Readdir(-1)\<close> on it return, the bytes it
  holds, and how reading ends after them (\<open>None\<close>: end of file, \<open>Some e\<close>: the read
  fails with \<open>e\<close>).
\<close>

record osFile =
  f_Stat :: "error + FileInfo"
  f_Readdir :: "error + FileInfo list"
  f_data :: "byte list"
  f_ending :: "error option"

text \<open>
  The file system maps a path to the error its resolution fails with, or to what is there:
  the \<open>FileInfo\<close> that \<open>os.Stat\<close> returns and the outcome of \<open>os.Open\<close>.
\<close>

record inode =
  i_info :: FileInfo
  i_open :: "error + osFile"

type_synonym filesystem = "string \<Rightarrow> error + inode"

definition os_Stat :: "filesystem \<Rightarrow> string \<Rightarrow> error + FileInfo" where
  "os_Stat fs path = (case fs path of Inl err \<Rightarrow> Inl err | Inr n \<Rightarrow> Inr (i_info n))"

definition os_Open :: "filesystem \<Rightarrow> string \<Rightarrow> error + osFile" where
  "os_Open fs path = (case fs path of Inl err \<Rightarrow> Inl err | Inr n \<Rightarrow> i_open n)"

text \<open>The \<open>error\<close> half of a two-valued Go result.\<close>

definition err_of :: "error + 'a \<Rightarrow> error option" where
  "err_of r = (case r of Inl err \<Rightarrow> Some err | Inr _ \<Rightarrow> None)"

text \<open>
  \<open>io.ReadFull(file, buf)\<close> on a zeroed buffer of \<open>n\<close> bytes: the buffer afterwards and
  the error, \<open>nil\<close> when the buffer was filled, \<open>io.EOF\<close> when nothing was read, and
  \<open>io.ErrUnexpectedEOF\<close> when the file ended part-way.
\<close>

definition io_ReadFull :: "osFile \<Rightarrow> nat \<Rightarrow> byte list \<times> error option" where
  "io_ReadFull file n =
     (let got = take n (f_data file)
      in (got @ replicate (n - length got) 0,
          if length got = n then None
          else
            let e = (case f_ending file of None \<Rightarrow> EOF | Some e' \<Rightarrow> e')
            in if e = EOF \<and> got \<noteq> [] then Some ErrUnexpectedEOF else Some e))"

text \<open>
  \<open>File.ReadAt(b, off)\<close> with \<open>len(b) = n\<close>: the bytes read and the error. A negative
  offset is an error; reading fewer than \<open>n\<close> bytes comes with the error that stopped it.
\<close>

definition File_ReadAt :: "osFile \<Rightarrow> nat \<Rightarrow> int \<Rightarrow> byte list \<times> error option" where
  "File_ReadAt file n off =
     (if off < 0 then ([], Some ErrOther)
      else
        let got = take n (drop (nat off) (f_data file))
        in (got,
            if length got = n then None
            else (case f_ending file of None \<Rightarrow> Some EOF | Some e \<Rightarrow> Some e)))"

subsection \<open>Path and string functions of the standard library\<close>

text \<open>
  \<open>filepath.Ext\<close>: the suffix beginning at the final dot of the final path element,
  empty when that element has no dot. The scan runs from the end of the path.
\<close>

fun ext_scan :: "string \<Rightarrow> string \<Rightarrow> string" where
  "ext_scan [] acc = []"
| "ext_scan (c # cs) acc =
     (if c = CHR ''/'' then []
      else if c = CHR ''.'' then c # acc
      else ext_scan cs (c # acc))"

definition filepath_Ext :: "string \<Rightarrow> string" where
  "filepath_Ext path = ext_scan (rev path) []"

text \<open>
  \<open>strings.Replace(s, old, new, 1)\<close>: \<open>s\<close> with the first occurrence of \<open>old\<close> replaced
  by \<open>new\<close> (an empty \<open>old\<close> matches at the start), and \<open>s\<close> itself when \<open>old = new\<close> or
  \<open>old\<close> does not occur.
\<close>

fun replace_first :: "string \<Rightarrow> string \<Rightarrow> string \<Rightarrow> string" where
  "replace_first [] old new = (if old = [] then new else [])"
| "replace_first (c # cs) old new =
     (if prefix old (c # cs) then new @ drop (length old) (c # cs)
      else c # replace_first cs old new)"

definition strings_Replace1 :: "string \<Rightarrow> string \<Rightarrow> string \<Rightarrow> string" where
  "strings_Replace1 s old new = (if old = new then s else replace_first s old new)"

text \<open>
  \<open>filepath.Join\<close> of two elements on a slash-separated system: leading empty elements
  are dropped, the rest are joined by a slash and the result is cleaned (\<open>filepath.Clean\<close>:
  empty and \<open>.\<close> elements vanish, \<open>..\<close> removes the element before it, or stays in
  front of a relative path, or vanishes at the root).
\<close>

fun split_slash :: "string \<Rightarrow> string list" where
  "split_slash [] = [[]]"
| "split_slash (c # cs) =
     (if c = CHR ''/'' then [] # split_slash cs
      else (case split_slash cs of [] \<Rightarrow> [[c]] | x # xs \<Rightarrow> (c # x) # xs))"

fun clean_elems :: "bool \<Rightarrow> string list \<Rightarrow> string list \<Rightarrow> string list" where
  "clean_elems rooted kept [] = rev kept"
| "clean_elems rooted kept (e # es) =
     (if e = [] \<or> e = ''.'' then clean_elems rooted kept es
      else if e = ''..'' then
        (case kept of
           [] \<Rightarrow> clean_elems rooted (if rooted then [] else [''..'']) es
         | k # ks \<Rightarrow>
             if k = ''..'' then clean_elems rooted (''..'' # kept) es
             else clean_elems rooted ks es)
      else clean_elems rooted (e # kept) es)"

fun join_slash :: "string list \<Rightarrow> string" where
  "join_slash [] = []"
| "join_slash [e] = e"
| "join_slash (e # es) = e @ ''/'' @ join_slash es"

definition filepath_Clean :: "string \<Rightarrow> string" where
  "filepath_Clean path =
     (case path of
        [] \<Rightarrow> ''.''
      | c # _ \<Rightarrow>
          let rooted = (c = CHR ''/'');
              body = join_slash (clean_elems rooted [] (split_slash path))
          in if rooted then CHR ''/'' # body
             else if body = [] then ''.'' else body)"

definition filepath_Join :: "string \<Rightarrow> string \<Rightarrow> string" where
  "filepath_Join a b =
     (if a \<noteq> [] then filepath_Clean (a @ ''/'' @ b)
      else if b \<noteq> [] then filepath_Clean b
      else [])"

section \<open>Directory nodes\<close>

type_synonym names = "string \<rightharpoonup> string"

record dir =
  dir_dir :: string
  dir_encoder :: string

text \<open>The struct \<open>file\<close> (the word is reserved here, hence the suffix).\<close>

record file_node =
  file_name :: string
  file_encoder :: string

datatype node = DirNode dir | FileNode file_node

datatype DirentType = DT_Unknown | DT_Dir | DT_File

record Dirent =
  d_Type :: DirentType
  d_Name :: string

text \<open>
  \<open>isAudio\<close>. \<open>http.DetectContentType\<close> is the content sniffer of the standard library,
  taken as a parameter \<open>detect\<close>.
\<close>

definition isAudio :: "(byte list \<Rightarrow> string) \<Rightarrow> filesystem \<Rightarrow> string \<Rightarrow> bool" where
  "isAudio detect fs path =
     (case os_Open fs path of
        Inl err \<Rightarrow> False
      | Inr file \<Rightarrow>
          (let (buf, err) = io_ReadFull file 512
           in if err \<noteq> None \<and> err \<noteq> Some EOF then False
              else
                let contentType = detect buf
                in prefix ''audio/'' contentType \<or> prefix ''video/'' contentType
                   \<or> contentType = ''application/ogg'' \<or> suffix ''.flac'' path))"

text \<open>The name an audio entry is listed under: its extension replaced by \<open>.ogg\<close>.\<close>

definition ogg_name :: "string \<Rightarrow> string" where
  "ogg_name name = (let ext = filepath_Ext name in strings_Replace1 name ext ''.ogg'')"

text \<open>
  The loop of \<open>dir.ReadDirAll\<close> over the entries of the directory: \<open>out\<close> is the listing
  built so far, \<open>allFiles\<close> the process-wide map from virtual to real paths.
\<close>

fun list_entries ::
  "(byte list \<Rightarrow> string) \<Rightarrow> filesystem \<Rightarrow> string \<Rightarrow> FileInfo list \<Rightarrow> Dirent list \<Rightarrow> names
     \<Rightarrow> Dirent list \<times> names" where
  "list_entries detect fs d [] out allFiles = (out, allFiles)"
| "list_entries detect fs d (ent # ents) out allFiles =
     (if fi_Mode ent \<noteq> ModeDir \<and> fi_Mode ent \<noteq> ModeRegular
      then list_entries detect fs d ents out allFiles
      else
        let typ = (if fi_Mode ent = ModeDir then DT_Dir else DT_File)
        in if typ = DT_File \<and> isAudio detect fs (filepath_Join d (fi_Name ent))
           then
             let name = ogg_name (fi_Name ent);
                 allFiles' =
                   (if os_IsNotExist (err_of (os_Stat fs (filepath_Join d name)))
                    then allFiles(filepath_Join d name \<mapsto> filepath_Join d (fi_Name ent))
                    else allFiles)
             in list_entries detect fs d ents (out @ [\<lparr>d_Type = typ, d_Name = name\<rparr>]) allFiles'
           else
             list_entries detect fs d ents
               (out @ [\<lparr>d_Type = typ, d_Name = fi_Name ent\<rparr>]) allFiles)"

definition dir_ReadDirAll ::
  "(byte list \<Rightarrow> string) \<Rightarrow> filesystem \<Rightarrow> names \<Rightarrow> dir \<Rightarrow> (error + Dirent list) \<times> names" where
  "dir_ReadDirAll detect fs allFiles d =
     (case os_Open fs (dir_dir d) of
        Inl err \<Rightarrow> (Inl err, allFiles)
      | Inr dirf \<Rightarrow>
          (case f_Readdir dirf of
             Inl err \<Rightarrow> (Inl err, allFiles)
           | Inr ents \<Rightarrow>
               (let (out, allFiles') = list_entries detect fs (dir_dir d) ents [] allFiles
                in (Inr out, allFiles'))))"

text \<open>
  The second half of \<open>dir.Lookup\<close>: open the resolved path and build the node for what is
  there.
\<close>

definition open_node :: "filesystem \<Rightarrow> string \<Rightarrow> string \<Rightarrow> error + node" where
  "open_node fs enc baseNameString =
     (case os_Open fs baseNameString of
        Inl err \<Rightarrow> if os_IsNotExist (Some err) then Inl fuse_ENOENT else Inl err
      | Inr ford \<Rightarrow>
          (case f_Stat ford of
             Inl err \<Rightarrow> Inl err
           | Inr stat \<Rightarrow>
               if fi_Mode stat = ModeDir
               then Inr (DirNode \<lparr>dir_dir = baseNameString, dir_encoder = enc\<rparr>)
               else if fi_Mode stat = ModeRegular
               then Inr (FileNode \<lparr>file_name = baseNameString, file_encoder = enc\<rparr>)
               else Inl fuse_ENOENT))"

definition dir_Lookup :: "filesystem \<Rightarrow> names \<Rightarrow> dir \<Rightarrow> string \<Rightarrow> error + node" where
  "dir_Lookup fs allFiles d name =
     (let joined = filepath_Join (dir_dir d) name;
          baseNameString =
            (if os_IsNotExist (err_of (os_Stat fs joined))
             then (case allFiles joined of Some baseName \<Rightarrow> baseName | None \<Rightarrow> joined)
             else joined)
      in open_node fs (dir_encoder d) baseNameString)"

section \<open>File nodes\<close>

record Attr =
  a_Size :: uint64
  a_Mode :: "32 word"

definition file_Attr ::
  "filesystem \<Rightarrow> sizes \<Rightarrow> names \<Rightarrow> file_node \<Rightarrow> Attr \<Rightarrow> error option \<times> Attr" where
  "file_Attr fs allSizes allFiles f a =
     (let a1 = a\<lparr>a_Mode := 365\<rparr>
      in case allSizes (file_name f) of
           Some realSize \<Rightarrow> (None, a1\<lparr>a_Size := realSize\<rparr>)
         | None \<Rightarrow>
             (case os_Stat fs (file_name f) of
                Inr stat \<Rightarrow> (None, a1\<lparr>a_Size := fi_Size stat\<rparr>)
              | Inl err \<Rightarrow>
                  if os_IsNotExist (Some err)
                  then (case allFiles (file_name f) of
                          Some baseName \<Rightarrow>
                            (case os_Stat fs baseName of
                               Inl err' \<Rightarrow> (Some err', a1)
                             | Inr stat \<Rightarrow> (None, a1\<lparr>a_Size := 10 * fi_Size stat\<rparr>))
                        | None \<Rightarrow> (None, a1))
                  else (None, a1)))"

text \<open>
  \<open>file.Open\<close>. Starting the encoder (\<open>exec.CommandContext\<close>, \<open>StdoutPipe\<close>, \<open>Start\<close>) is
  the parameter \<open>start\<close>: from the command and its arguments to the error, or to the pipe
  its standard output is read from.
\<close>

datatype handle = nativeFile osFile | transcode fileHandle

definition file_Open ::
  "filesystem \<Rightarrow> (string \<Rightarrow> string list \<Rightarrow> error + pipe) \<Rightarrow> file_node \<Rightarrow> error + handle" where
  "file_Open fs start f =
     (case os_Open fs (file_name f) of
        Inr fd \<Rightarrow> Inr (nativeFile fd)
      | Inl _ \<Rightarrow>
          (case start ''ffmpeg'' [''-i'', file_name f, ''-f'', ''ogg'', ''-''] of
             Inl err \<Rightarrow> Inl err
           | Inr stdoutPipe \<Rightarrow>
               Inr (transcode \<lparr>fh_name = file_name f, fh_pipe = stdoutPipe, fh_buffer = [],
                               fh_encoder = file_encoder f\<rparr>)))"

section \<open>The passthrough handle: \<open>nativeFile\<close>\<close>

definition nativeFile_Read ::
  "osFile \<Rightarrow> sizes \<Rightarrow> ReadRequest \<Rightarrow> ReadResponse \<Rightarrow> outcome \<times> ReadResponse \<times> sizes" where
  "nativeFile_Read f allSizes req resp =
     (case make_bytes (sint (req_Size req)) of
        None \<Rightarrow> (Panicked, resp, allSizes)
      | Some data0 \<Rightarrow>
          (let (got, err) = File_ReadAt f (length data0) (sint (req_Offset req));
               n = length got;
               data = take n (got @ drop n data0)
           in (Returned (if err = Some EOF then None else err),
               resp\<lparr>resp_Data := data\<rparr>, allSizes)))"

section \<open>Example inputs\<close>

text \<open>
  A session whose encoder delivers one byte and ends, and a session whose stream of four
  bytes is fully buffered.
\<close>

definition short_session :: fileHandle where
  "short_session =
     \<lparr>fh_name = ''/music/track.mp3'', fh_pipe = \<lparr>pending = [1], ending = None\<rparr>,
      fh_buffer = [], fh_encoder = ''ogg''\<rparr>"





text \<open>An open real file of three bytes.\<close>

definition three_bytes :: osFile where
  "three_bytes =
     \<lparr>f_Stat = Inr \<lparr>fi_Name = ''intro.ogg'', fi_Mode = ModeRegular, fi_Size = 3\<rparr>,
      f_Readdir = Inl ErrOther, f_data = [1, 2, 3], f_ending = None\<rparr>"

text \<open>
  A content sniffer for the examples, with the two signatures that occur in them (an ID3
  tag is \<open>audio/mpeg\<close>, an Ogg page is \<open>application/ogg\<close>), and file systems built from
  regular files, directories and a named pipe: \<open>/music\<close> with two MP3 files, a real
  \<open>intro.ogg\<close> and a text file; \<open>/rips\<close> with an MP3 file whose name holds its extension
  twice; \<open>/albums\<close> with two FLAC files, one named as the other is renamed; \<open>/pipes\<close>
  with an MP3 file and a named pipe \<open>intro.ogg\<close>.
\<close>

definition example_detect :: "byte list \<Rightarrow> string" where
  "example_detect buf =
     (if take 3 buf = [0x49, 0x44, 0x33] then ''audio/mpeg''
      else if take 5 buf = [0x4F, 0x67, 0x67, 0x53, 0x00] then ''application/ogg''
      else ''application/octet-stream'')"

definition regular_file :: "string \<Rightarrow> byte list \<Rightarrow> inode" where
  "regular_file nm data =
     (let info = \<lparr>fi_Name = nm, fi_Mode = ModeRegular, fi_Size = of_nat (length data)\<rparr>
      in \<lparr>i_info = info,
          i_open = Inr \<lparr>f_Stat = Inr info, f_Readdir = Inl ErrOther, f_data = data,
                       f_ending = None\<rparr>\<rparr>)"

definition directory :: "string \<Rightarrow> FileInfo list \<Rightarrow> inode" where
  "directory nm ents =
     (let info = \<lparr>fi_Name = nm, fi_Mode = ModeDir, fi_Size = 4096\<rparr>
      in \<lparr>i_info = info,
          i_open = Inr \<lparr>f_Stat = Inr info, f_Readdir = Inr ents, f_data = [],
                       f_ending = Some ErrOther\<rparr>\<rparr>)"

definition named_pipe :: "string \<Rightarrow> inode" where
  "named_pipe nm =
     (let info = \<lparr>fi_Name = nm, fi_Mode = ModeOther, fi_Size = 0\<rparr>
      in \<lparr>i_info = info,
          i_open = Inr \<lparr>f_Stat = Inr info, f_Readdir = Inl ErrOther, f_data = [],
                       f_ending = None\<rparr>\<rparr>)"

definition mp3_data :: "byte list" where
  "mp3_data = [0x49, 0x44, 0x33] @ replicate 597 0"

definition ogg_data :: "byte list" where
  "ogg_data = [0x4F, 0x67, 0x67, 0x53] @ replicate 796 0"

definition flac_data :: "byte list" where
  "flac_data = [0x66, 0x4C, 0x61, 0x43] @ replicate 508 0"

definition music_fs :: filesystem where
  "music_fs path =
     (if path = ''/music'' then
        Inr (directory ''music''
               [i_info (regular_file ''track.mp3'' mp3_data),
                i_info (regular_file ''intro.mp3'' mp3_data),
                i_info (regular_file ''intro.ogg'' ogg_data),
                i_info (regular_file ''notes.txt'' [])])
      else if path = ''/music/track.mp3'' then Inr (regular_file ''track.mp3'' mp3_data)
      else if path = ''/music/intro.mp3'' then Inr (regular_file ''intro.mp3'' mp3_data)
      else if path = ''/music/intro.ogg'' then Inr (regular_file ''intro.ogg'' ogg_data)
      else if path = ''/music/notes.txt'' then Inr (regular_file ''notes.txt'' [])
      else Inl ErrNotExist)"

definition music_dir :: dir where
  "music_dir = \<lparr>dir_dir = ''/music'', dir_encoder = ''ogg''\<rparr>"

definition rips_fs :: filesystem where
  "rips_fs path =
     (if path = ''/rips'' then
        Inr (directory ''rips'' [i_info (regular_file ''01.mp3-rip.mp3'' mp3_data)])
      else if path = ''/rips/01.mp3-rip.mp3'' then Inr (regular_file ''01.mp3-rip.mp3'' mp3_data)
      else Inl ErrNotExist)"

definition albums_fs :: filesystem where
  "albums_fs path =
     (if path = ''/albums'' then
        Inr (directory ''albums''
               [i_info (regular_file ''a.flac.flac'' flac_data),
                i_info (regular_file ''a.ogg.flac'' flac_data)])
      else if path = ''/albums/a.flac.flac'' then Inr (regular_file ''a.flac.flac'' flac_data)
      else if path = ''/albums/a.ogg.flac'' then Inr (regular_file ''a.ogg.flac'' flac_data)
      else Inl ErrNotExist)"

definition pipes_fs :: filesystem where
  "pipes_fs path =
     (if path = ''/pipes'' then
        Inr (directory ''pipes''
               [i_info (regular_file ''intro.mp3'' mp3_data), i_info (named_pipe ''intro.ogg'')])
      else if path = ''/pipes/intro.mp3'' then Inr (regular_file ''intro.mp3'' mp3_data)
      else if path = ''/pipes/intro.ogg'' then Inr (named_pipe ''intro.ogg'')
      else Inl ErrNotExist)"

section \<open>The transcode session: properties\<close>

lemmas read_eval =
  fileHandle_Read_def fill_buffer_def serve_slice_def io_CopyN_def make_bytes_def
  go_slice_def go_copy_def Let_def

lemma sint_add_wf:
  "wf_request req \<Longrightarrow>
     sint (req_Offset req + req_Size req) = sint (req_Offset req) + sint (req_Size req)"
  unfolding wf_request_def
  by (simp add: sint_word_ariths signed_take_bit_int_eq_self)

lemma go_slice_spec:
  assumes "0 \<le> off" "0 \<le> len"
  shows "go_slice buf (if off > int (length buf) then int (length buf) else off)
            (if off + len > int (length buf) then int (length buf) else off + len)
         = Some (spec_slice buf (nat off) (nat len))"
  using assms
  by (auto simp: go_slice_def spec_slice_def Let_def min_def nat_add_distrib)

lemma spec_slice_length: "length (spec_slice buf off len) \<le> len"
  by (auto simp: spec_slice_def Let_def min_def)

lemma go_copy_zeros:
  "length src \<le> n \<Longrightarrow>
     go_copy (replicate n (0::byte)) src = (src @ replicate (n - length src) 0, length src)"
  by (simp add: go_copy_def Let_def min_def)

lemma serve_slice_wf:
  assumes wf: "wf_request req"
  shows "serve_slice nm buf s req resp =
     (let len = nat (sint (req_Size req));
          sl = spec_slice buf (nat (sint (req_Offset req))) len
      in if sl = []
         then (Returned (Some EOF), resp\<lparr>resp_Data := replicate len 0\<rparr>,
               s(nm \<mapsto> of_nat (length buf)))
         else (Returned None, resp\<lparr>resp_Data := sl @ replicate (len - length sl) 0\<rparr>, s))"
proof -
  have o: "0 \<le> sint (req_Offset req)" and l: "0 \<le> sint (req_Size req)"
    using wf by (simp_all add: wf_request_def)
  have mk: "make_bytes (sint (req_Size req)) = Some (replicate (nat (sint (req_Size req))) 0)"
    using l by (simp add: make_bytes_def)
  note sl = go_slice_spec[OF o l]
  show ?thesis
    unfolding serve_slice_def sint_add_wf[OF wf] Let_def
    by (simp add: mk sl go_copy_zeros spec_slice_length del: if_split cong: if_cong)
qed

lemma fill_buffer_extends:
  "fill_buffer fh req = (fh1, err) \<Longrightarrow>
     fh_name fh1 = fh_name fh \<and> fh_encoder fh1 = fh_encoder fh
     \<and> (\<exists>bs. fh_buffer fh1 = fh_buffer fh @ bs)"
  by (auto simp: fill_buffer_def io_CopyN_def Let_def split: if_splits)

lemma fill_buffer_covered:
  "fill_buffer fh req = (fh1, err) \<Longrightarrow> err = None \<or> err = Some EOF \<Longrightarrow> covered fh1 req"
  by (auto simp: fill_buffer_def io_CopyN_def covered_def drained_def Let_def
           split: if_splits option.splits)

lemma fill_buffer_reached:
  "sint (req_Offset req + req_Size req) \<le> int (length (fh_buffer fh)) \<Longrightarrow>
     fill_buffer fh req = (fh, None)"
  by (simp add: fill_buffer_def)

lemma fill_buffer_drained:
  "drained (fh_pipe fh) \<Longrightarrow>
     fill_buffer fh req = (fh, None) \<or> fill_buffer fh req = (fh, Some EOF)"
  by (auto simp: fill_buffer_def io_CopyN_def drained_def Let_def)


lemma go_slice_extend:
  assumes w: "w \<le> int (length buf)"
    and sl: "go_slice buf (if off > int (length buf) then int (length buf) else off) w = Some src"
    and ne: "src \<noteq> []"
  shows "go_slice (buf @ bs)
           (if off > int (length (buf @ bs)) then int (length (buf @ bs)) else off) w = Some src"
proof -
  let ?m = "if off > int (length buf) then int (length buf) else off"
  from sl have b: "0 \<le> ?m" "?m \<le> w" and src: "src = take (nat w - nat ?m) (drop (nat ?m) buf)"
    by (auto simp: go_slice_def split: if_splits)
  from ne src have "nat ?m < nat w" by (cases "nat ?m < nat w") auto
  with w have lt: "?m < w" by linarith
  with w have m: "?m = off" by (auto split: if_splits)
  with b lt w have o: "0 \<le> off" "off < w" "off \<le> int (length buf)" by auto
  have "take (nat w - nat off) (drop (nat off) (buf @ bs)) = take (nat w - nat off) (drop (nat off) buf)"
    using o w by (simp add: nat_le_iff)
  with o w src m show ?thesis
    by (auto simp: go_slice_def)
qed

lemma serve_slice_stable:
  assumes run: "serve_slice nm buf s req resp = (Returned None, resp1, s1)"
    and reach: "sint (req_Offset req + req_Size req) \<le> int (length buf) \<or> bs = []"
  shows "s1 = s \<and> serve_slice nm (buf @ bs) s' req resp = (Returned None, resp1, s')"
proof -
  let ?w = "sint (req_Offset req + req_Size req)"
  let ?o = "sint (req_Offset req)"
  let ?m = "\<lambda>b::byte list. if ?o > int (length b) then int (length b) else ?o"
  let ?x = "\<lambda>b::byte list. if ?w > int (length b) then int (length b) else ?w"
  from run obtain data0 src where
    mk: "make_bytes (sint (req_Size req)) = Some data0"
    and sl: "go_slice buf (?m buf) (?x buf) = Some src"
    and n: "snd (go_copy data0 src) \<noteq> 0"
    and r: "resp1 = resp\<lparr>resp_Data := fst (go_copy data0 src)\<rparr>"
    and s: "s1 = s"
    by (auto simp: serve_slice_def Let_def split: option.splits prod.splits if_splits)
  from n have ne: "src \<noteq> []" by (auto simp: go_copy_def Let_def)
  have sl': "go_slice (buf @ bs) (?m (buf @ bs)) (?x (buf @ bs)) = Some src"
  proof (cases "bs = []")
    case True
    show ?thesis unfolding True append_Nil2 by (rule sl)
  next
    case False
    with reach have w: "?w \<le> int (length buf)" by simp
    then have x: "?x buf = ?w" and x': "?x (buf @ bs) = ?w" by simp_all
    from sl have "go_slice buf (?m buf) ?w = Some src" unfolding x .
    from go_slice_extend[OF w this ne, of bs] show ?thesis unfolding x' .
  qed
  have "serve_slice nm (buf @ bs) s' req resp = (Returned None, resp1, s')"
    unfolding serve_slice_def Let_def using mk sl' n r
    by (simp add: split_def del: if_split cong: if_cong)
  with s show ?thesis by simp
qed


lemma fileHandle_Read_fill:
  assumes "fileHandle_Read fh s req resp = (out, resp', fh', s')"
  obtains err where "fill_buffer fh req = (fh', err)"
  using assms
  by (auto simp: fileHandle_Read_def Let_def split: prod.splits if_splits)

lemma fileHandle_Read_grows:
  assumes "fileHandle_Read fh s req resp = (out, resp', fh', s')"
  shows "grows_to fh fh'"
proof -
  from assms obtain err where f: "fill_buffer fh req = (fh', err)"
    by (rule fileHandle_Read_fill)
  from fill_buffer_extends[OF f] fill_buffer_drained[of fh req] f
  show ?thesis by (auto simp: grows_to_def)
qed

lemma grows_to_trans: "grows_to a b \<Longrightarrow> grows_to b c \<Longrightarrow> grows_to a c"
  by (auto simp: grows_to_def)

lemma run_reads_grows: "run_reads fh s reqs = (fh', s') \<Longrightarrow> grows_to fh fh'"
proof (induction reqs arbitrary: fh s)
  case Nil
  then show ?case by (simp add: grows_to_def)
next
  case (Cons req reqs)
  obtain out r fh1 s1 where step: "fileHandle_Read fh s req \<lparr>resp_Data = []\<rparr> = (out, r, fh1, s1)"
    by (metis prod_cases4)
  with Cons.prems have "run_reads fh1 s1 reqs = (fh', s')" by simp
  from Cons.IH[OF this] fileHandle_Read_grows[OF step] show ?case
    by (rule grows_to_trans[rotated])
qed

lemma fileHandle_Read_delivered:
  assumes "fileHandle_Read fh s req resp = (Returned None, resp1, fh1, s1)"
  shows "covered fh1 req \<and> fh_name fh1 = fh_name fh
         \<and> serve_slice (fh_name fh) (fh_buffer fh1) s req resp = (Returned None, resp1, s1)"
proof -
  from assms obtain err where f: "fill_buffer fh req = (fh1, err)"
    by (rule fileHandle_Read_fill)
  from assms f have e: "err = None \<or> err = Some EOF"
    and sv: "serve_slice (fh_name fh1) (fh_buffer fh1) s req resp = (Returned None, resp1, s1)"
    by (auto simp: fileHandle_Read_def Let_def split: prod.splits if_splits)
  from fill_buffer_covered[OF f e] fill_buffer_extends[OF f] sv show ?thesis by simp
qed

lemma fileHandle_Read_again:
  assumes first: "fileHandle_Read fh s req resp = (Returned None, resp1, fh1, s1)"
    and later: "grows_to fh1 fh2"
  shows "fileHandle_Read fh2 s2 req resp = (Returned None, resp1, fh2, s2)"
proof -
  from fileHandle_Read_delivered[OF first]
  have cov: "covered fh1 req" and nm: "fh_name fh1 = fh_name fh"
    and sv: "serve_slice (fh_name fh) (fh_buffer fh1) s req resp = (Returned None, resp1, s1)"
    by simp_all
  from later obtain bs where bs: "fh_buffer fh2 = fh_buffer fh1 @ bs"
    and nm2: "fh_name fh2 = fh_name fh1"
    and dr: "drained (fh_pipe fh1) \<longrightarrow> fh2 = fh1"
    by (auto simp: grows_to_def prefix_def)
  let ?w = "sint (req_Offset req + req_Size req)"
  show ?thesis
  proof (cases "?w \<le> int (length (fh_buffer fh1))")
    case True
    then have "?w \<le> int (length (fh_buffer fh2))" using bs by simp
    then have f: "fill_buffer fh2 req = (fh2, None)" by (rule fill_buffer_reached)
    from serve_slice_stable[OF sv, of bs s2] True
    have "serve_slice (fh_name fh) (fh_buffer fh2) s2 req resp = (Returned None, resp1, s2)"
      using bs by simp
    with f nm nm2 show ?thesis by (simp add: fileHandle_Read_def)
  next
    case False
    with cov have d: "drained (fh_pipe fh1)" by (simp add: covered_def)
    with dr have eq: "fh2 = fh1" by simp
    from serve_slice_stable[OF sv, of "[]" s2]
    have sv2: "serve_slice (fh_name fh) (fh_buffer fh1) s2 req resp = (Returned None, resp1, s2)"
      by simp
    from fill_buffer_drained[OF d, of req] sv2 nm eq show ?thesis
      by (auto simp: fileHandle_Read_def)
  qed
qed

text \<open>
  Claim C9. After any read, and after any further sequence of reads at arbitrary offsets
  and sizes, the earlier buffer is a prefix of the later one; and a read that delivered
  bytes, repeated after that sequence, returns the same response without touching the
  session.
\<close>

theorem transcode_buffer_only_grows:
  assumes first: "fileHandle_Read fh allSizes req resp = (out, resp1, fh1, allSizes1)"
    and later: "run_reads fh1 allSizes1 reqs = (fh2, allSizes2)"
  shows "prefix (fh_buffer fh) (fh_buffer fh1) \<and> prefix (fh_buffer fh1) (fh_buffer fh2)
         \<and> (out = Returned None \<longrightarrow>
              fileHandle_Read fh2 allSizes2 req resp = (Returned None, resp1, fh2, allSizes2))"
proof -
  have g1: "grows_to fh fh1" using first by (rule fileHandle_Read_grows)
  have g2: "grows_to fh1 fh2" using later by (rule run_reads_grows)
  have "fileHandle_Read fh2 allSizes2 req resp = (Returned None, resp1, fh2, allSizes2)"
    if "out = Returned None"
    using first that g2 by (auto intro: fileHandle_Read_again)
  with g1 g2 show ?thesis by (simp add: grows_to_def)
qed

theorem transcode_buffer_only_grows_witness:
  "fileHandle_Read short_session Map.empty \<lparr>req_Offset = 0, req_Size = 4\<rparr> \<lparr>resp_Data = []\<rparr>
     = (Returned None, \<lparr>resp_Data = [1, 0, 0, 0]\<rparr>,
        short_session\<lparr>fh_pipe := \<lparr>pending = [], ending = None\<rparr>, fh_buffer := [1]\<rparr>, Map.empty)
   \<and> run_reads (short_session\<lparr>fh_pipe := \<lparr>pending = [], ending = None\<rparr>, fh_buffer := [1]\<rparr>)
        Map.empty [\<lparr>req_Offset = 7, req_Size = 2\<rparr>, \<lparr>req_Offset = 0, req_Size = 1\<rparr>]
     = (short_session\<lparr>fh_pipe := \<lparr>pending = [], ending = None\<rparr>, fh_buffer := [1]\<rparr>,
        [''/music/track.mp3'' \<mapsto> 1])
   \<and> fileHandle_Read (short_session\<lparr>fh_pipe := \<lparr>pending = [], ending = None\<rparr>, fh_buffer := [1]\<rparr>)
        [''/music/track.mp3'' \<mapsto> 1] \<lparr>req_Offset = 0, req_Size = 4\<rparr> \<lparr>resp_Data = []\<rparr>
     = (Returned None, \<lparr>resp_Data = [1, 0, 0, 0]\<rparr>,
        short_session\<lparr>fh_pipe := \<lparr>pending = [], ending = None\<rparr>, fh_buffer := [1]\<rparr>,
        [''/music/track.mp3'' \<mapsto> 1])"
proof -
  let ?h = "short_session\<lparr>fh_pipe := \<lparr>pending = [], ending = None\<rparr>, fh_buffer := [1]\<rparr>"
  have first: "fileHandle_Read short_session Map.empty \<lparr>req_Offset = 0, req_Size = 4\<rparr>
        \<lparr>resp_Data = []\<rparr> = (Returned None, \<lparr>resp_Data = [1, 0, 0, 0]\<rparr>, ?h, Map.empty)"
    by (simp add: read_eval short_session_def eval_nat_numeral)
  have later: "run_reads ?h Map.empty [\<lparr>req_Offset = 7, req_Size = 2\<rparr>, \<lparr>req_Offset = 0, req_Size = 1\<rparr>]
     = (?h, [''/music/track.mp3'' \<mapsto> 1])"
    by (simp add: read_eval short_session_def eval_nat_numeral)
  from transcode_buffer_only_grows[OF first later] first later show ?thesis
    by simp
qed

text \<open>
  Claim C1. The claim: the bytes a transcode read hands back are exactly the slice
  \<open>buffer[lo:hi]\<close>, possibly shorter than requested. The handler allocates \<open>req.Size\<close>
  bytes, copies the slice into them and never truncates the response (the passthrough
  handler does, with \<open>resp.Data[:n]\<close>). At the session that holds one byte, a read of four
  bytes at offset 0 returns four bytes, the byte followed by three zeros, where the slice
  of the claim is the single byte.
\<close>

theorem transcode_read_pads_short_slice:
  "fileHandle_Read short_session Map.empty \<lparr>req_Offset = 0, req_Size = 4\<rparr> \<lparr>resp_Data = []\<rparr>
     = (Returned None, \<lparr>resp_Data = [1, 0, 0, 0]\<rparr>,
        short_session\<lparr>fh_pipe := \<lparr>pending = [], ending = None\<rparr>, fh_buffer := [1]\<rparr>, Map.empty)
   \<and> spec_slice [1] 0 4 = [1]"
  by (simp add: read_eval short_session_def spec_slice_def eval_nat_numeral)

lemma fileHandle_Read_wf:
  assumes wf: "wf_request req"
    and run: "fileHandle_Read fh s req resp = (out, resp', fh', s')"
    and ok: "out = Returned None \<or> out = Returned (Some EOF)"
  shows "(out, resp', s') =
     (let len = nat (sint (req_Size req));
          sl = spec_slice (fh_buffer fh') (nat (sint (req_Offset req))) len
      in if sl = []
         then (Returned (Some EOF), resp\<lparr>resp_Data := replicate len 0\<rparr>,
               s(fh_name fh \<mapsto> of_nat (length (fh_buffer fh'))))
         else (Returned None, resp\<lparr>resp_Data := sl @ replicate (len - length sl) 0\<rparr>, s))"
proof -
  from run obtain err where f: "fill_buffer fh req = (fh', err)"
    by (rule fileHandle_Read_fill)
  from fill_buffer_extends[OF f] have nm: "fh_name fh' = fh_name fh" by simp
  have e: "err = None \<or> err = Some EOF"
    using run f ok by (auto simp: fileHandle_Read_def Let_def split: prod.splits if_splits)
  with run f have "serve_slice (fh_name fh') (fh_buffer fh') s req resp = (out, resp', s')"
    by (auto simp: fileHandle_Read_def Let_def split: prod.splits if_splits)
  then show ?thesis
    unfolding serve_slice_wf[OF wf] nm by simp
qed

lemma transcode_response_is_padded_slice:
  assumes wf: "wf_request req"
    and run: "fileHandle_Read fh s req resp = (out, resp', fh', s')"
    and ok: "out = Returned None \<or> out = Returned (Some EOF)"
  shows "resp_Data resp' =
           spec_slice (fh_buffer fh') (nat (sint (req_Offset req))) (nat (sint (req_Size req)))
           @ replicate (nat (sint (req_Size req))
                        - length (spec_slice (fh_buffer fh') (nat (sint (req_Offset req)))
                                    (nat (sint (req_Size req))))) 0
       \<and> length (resp_Data resp') = nat (sint (req_Size req))"
  using fileHandle_Read_wf[OF wf run ok]
    spec_slice_length[of "fh_buffer fh'" "nat (sint (req_Offset req))" "nat (sint (req_Size req))"]
  by (auto simp: Let_def split: if_splits)











text \<open>
  Claim C8. A passthrough read never changes \<open>allSizes\<close>, and when the positioned read of
  the real file ends with \<open>io.EOF\<close> the handler returns no error and the bytes from the
  offset to the end of the file, fewer than requested.
\<close>

theorem passthrough_eof_is_short_read:
  assumes "nativeFile_Read f allSizes req resp = (out, resp', allSizes')"
  shows "allSizes' = allSizes
       \<and> (0 \<le> sint (req_Size req)
            \<and> snd (File_ReadAt f (nat (sint (req_Size req))) (sint (req_Offset req))) = Some EOF
          \<longrightarrow> out = Returned None
              \<and> length (resp_Data resp') < nat (sint (req_Size req))
              \<and> resp_Data resp' = drop (nat (sint (req_Offset req))) (f_data f))"
proof -
  have same: "allSizes' = allSizes"
    using assms by (auto simp: nativeFile_Read_def Let_def split: option.splits prod.splits)
  have eof: "out = Returned None
              \<and> length (resp_Data resp') < nat (sint (req_Size req))
              \<and> resp_Data resp' = drop (nat (sint (req_Offset req))) (f_data f)"
    if sz: "0 \<le> sint (req_Size req)"
      and e: "snd (File_ReadAt f (nat (sint (req_Size req))) (sint (req_Offset req))) = Some EOF"
  proof -
    let ?n = "nat (sint (req_Size req))" and ?rest = "drop (nat (sint (req_Offset req))) (f_data f)"
    from e have off: "0 \<le> sint (req_Offset req)" and short: "length (take ?n ?rest) \<noteq> ?n"
      by (auto simp: File_ReadAt_def Let_def split: if_splits)
    from short have lt: "length ?rest < ?n" by (simp add: min_def split: if_splits)
    then have got: "take ?n ?rest = ?rest" by simp
    from off have rd: "File_ReadAt f ?n (sint (req_Offset req)) = (?rest, Some EOF)"
      using e got by (auto simp: File_ReadAt_def Let_def split: if_splits)
    from assms sz rd lt show ?thesis
      by (auto simp: nativeFile_Read_def make_bytes_def Let_def)
  qed
  from same eof show ?thesis by blast
qed

theorem passthrough_eof_is_short_read_witness:
  "nativeFile_Read three_bytes Map.empty \<lparr>req_Offset = 2, req_Size = 4\<rparr> \<lparr>resp_Data = []\<rparr>
     = (Returned None, \<lparr>resp_Data = [3]\<rparr>, Map.empty)
   \<and> (0::int) \<le> sint (4::int64)
   \<and> snd (File_ReadAt three_bytes 4 2) = Some EOF
   \<and> length [3::byte] < 4"
proof -
  have run: "nativeFile_Read three_bytes Map.empty \<lparr>req_Offset = 2, req_Size = 4\<rparr> \<lparr>resp_Data = []\<rparr>
     = (Returned None, \<lparr>resp_Data = [3]\<rparr>, Map.empty)"
    by (simp add: nativeFile_Read_def make_bytes_def File_ReadAt_def three_bytes_def Let_def)
  from passthrough_eof_is_short_read[OF run] run show ?thesis
    by (simp add: File_ReadAt_def three_bytes_def)
qed

section \<open>Directory and file nodes: properties\<close>

lemma replicate_3: "replicate 3 x = [x, x, x]"
  by (simp add: numeral_3_eq_3)

lemma replicate_5: "replicate 5 x = [x, x, x, x, x]"
  by (simp add: eval_nat_numeral)

lemmas fs_eval =
  dir_ReadDirAll_def dir_Lookup_def open_node_def file_Attr_def file_Open_def
  os_Open_def os_Stat_def directory_def regular_file_def
  isAudio_def io_ReadFull_def example_detect_def mp3_data_def ogg_data_def
  ogg_name_def filepath_Ext_def strings_Replace1_def filepath_Join_def filepath_Clean_def
  os_IsNotExist_def err_of_def Let_def suffix_to_prefix replicate_3 replicate_5

lemma file_Attr_fabricated:
  assumes "allSizes (file_name f) = None" and "os_Stat fs (file_name f) = Inl ErrNotExist"
    and "allFiles (file_name f) = Some baseName" and "os_Stat fs baseName = Inr stat"
  shows "file_Attr fs allSizes allFiles f a = (None, a\<lparr>a_Mode := 365, a_Size := 10 * fi_Size stat\<rparr>)"
  using assms by (simp add: file_Attr_def os_IsNotExist_def)

text \<open>
  What \<open>file.Open\<close> returns, and what every file node built by \<open>dir.Lookup\<close> holds: a name
  that \<open>os.Open\<close> opens. Such a node is opened natively and reports the size of the file
  under its name.
\<close>

lemma file_Open_native:
  "os_Open fs (file_name f) = Inr fd \<Longrightarrow> file_Open fs start f = Inr (nativeFile fd)"
  by (simp add: file_Open_def)

lemma file_Open_transcode:
  assumes "os_Open fs (file_name f) = Inl err"
    and "start ''ffmpeg'' [''-i'', file_name f, ''-f'', ''ogg'', ''-''] = Inr stdoutPipe"
  shows "file_Open fs start f =
           Inr (transcode \<lparr>fh_name = file_name f, fh_pipe = stdoutPipe, fh_buffer = [],
                           fh_encoder = file_encoder f\<rparr>)"
  using assms by (simp add: file_Open_def)

lemma open_node_file:
  "open_node fs enc p = Inr (FileNode f) \<Longrightarrow> file_name f = p \<and> (\<exists>fd. os_Open fs p = Inr fd)"
  by (auto simp: open_node_def split: sum.splits if_splits)

lemma dir_Lookup_file_exists:
  assumes "dir_Lookup fs allFiles d name = Inr (FileNode f)"
  shows "\<exists>fd. os_Open fs (file_name f) = Inr fd"
  using assms open_node_file by (fastforce simp: dir_Lookup_def Let_def)

lemma looked_up_file_opens_natively:
  assumes "dir_Lookup fs allFiles d name = Inr (FileNode f)"
  shows "\<exists>fd. file_Open fs start f = Inr (nativeFile fd)"
  using dir_Lookup_file_exists[OF assms] by (auto simp: file_Open_native)

lemma looked_up_file_reports_real_size:
  assumes "dir_Lookup fs allFiles d name = Inr (FileNode f)"
    and "allSizes (file_name f) = None"
  shows "\<exists>stat. os_Stat fs (file_name f) = Inr stat
           \<and> file_Attr fs allSizes allFiles' f a = (None, a\<lparr>a_Mode := 365, a_Size := fi_Size stat\<rparr>)"
proof -
  from dir_Lookup_file_exists[OF assms(1)] obtain fd where "os_Open fs (file_name f) = Inr fd" ..
  then obtain n where "fs (file_name f) = Inr n"
    by (auto simp: os_Open_def split: sum.splits)
  with assms(2) show ?thesis
    by (simp add: file_Attr_def os_Stat_def)
qed

lemma music_listing:
  "dir_ReadDirAll example_detect music_fs Map.empty music_dir
     = (Inr [\<lparr>d_Type = DT_File, d_Name = ''track.ogg''\<rparr>,
             \<lparr>d_Type = DT_File, d_Name = ''intro.ogg''\<rparr>,
             \<lparr>d_Type = DT_File, d_Name = ''intro.ogg''\<rparr>,
             \<lparr>d_Type = DT_File, d_Name = ''notes.txt''\<rparr>],
        [''/music/track.ogg'' \<mapsto> ''/music/track.mp3''])"
  by (simp add: fs_eval music_fs_def music_dir_def)

lemma music_lookup_track:
  "dir_Lookup music_fs [''/music/track.ogg'' \<mapsto> ''/music/track.mp3''] music_dir ''track.ogg''
     = Inr (FileNode \<lparr>file_name = ''/music/track.mp3'', file_encoder = ''ogg''\<rparr>)"
  by (simp add: fs_eval music_fs_def music_dir_def)

text \<open>
  Claim C3. The claim: a file node known only through a name mapping, with no size entry,
  reports ten times the size of the mapped source file. \<open>dir.Lookup\<close> replaces the joined
  path by the mapped real path before it builds the node, so the node that \<open>track.ogg\<close>
  resolves to carries the name \<open>/music/track.mp3\<close>; \<open>file.Attr\<close> finds a real file under
  that name and reports its size. Listing \<open>/music\<close>, resolving \<open>track.ogg\<close> and asking
  for the attributes gives 600, the size of \<open>track.mp3\<close>, not 6000.
\<close>

theorem mapped_node_reports_source_size:
  "dir_ReadDirAll example_detect music_fs Map.empty music_dir
     = (Inr [\<lparr>d_Type = DT_File, d_Name = ''track.ogg''\<rparr>,
             \<lparr>d_Type = DT_File, d_Name = ''intro.ogg''\<rparr>,
             \<lparr>d_Type = DT_File, d_Name = ''intro.ogg''\<rparr>,
             \<lparr>d_Type = DT_File, d_Name = ''notes.txt''\<rparr>],
        [''/music/track.ogg'' \<mapsto> ''/music/track.mp3''])
   \<and> os_Stat music_fs ''/music/track.ogg'' = Inl ErrNotExist
   \<and> os_Stat music_fs ''/music/track.mp3''
       = Inr \<lparr>fi_Name = ''track.mp3'', fi_Mode = ModeRegular, fi_Size = 600\<rparr>
   \<and> dir_Lookup music_fs [''/music/track.ogg'' \<mapsto> ''/music/track.mp3''] music_dir ''track.ogg''
       = Inr (FileNode \<lparr>file_name = ''/music/track.mp3'', file_encoder = ''ogg''\<rparr>)
   \<and> file_Attr music_fs Map.empty [''/music/track.ogg'' \<mapsto> ''/music/track.mp3'']
        \<lparr>file_name = ''/music/track.mp3'', file_encoder = ''ogg''\<rparr> \<lparr>a_Size = 0, a_Mode = 0\<rparr>
       = (None, \<lparr>a_Size = 600, a_Mode = 365\<rparr>)"
  using music_listing music_lookup_track
  by (simp add: fs_eval music_fs_def)

text \<open>
  Claim C4. The claim: opening a virtual name that was resolved through a name mapping
  starts the encoder on the mapped source. The node that \<open>track.ogg\<close> resolves to carries
  the name \<open>/music/track.mp3\<close>, which \<open>os.Open\<close> opens, so \<open>file.Open\<close> returns the
  passthrough handle over the untranscoded source, whatever starting the encoder would do.
\<close>

theorem mapped_node_opens_source_natively:
  "dir_Lookup music_fs [''/music/track.ogg'' \<mapsto> ''/music/track.mp3''] music_dir ''track.ogg''
       = Inr (FileNode \<lparr>file_name = ''/music/track.mp3'', file_encoder = ''ogg''\<rparr>)
   \<and> file_Open music_fs start \<lparr>file_name = ''/music/track.mp3'', file_encoder = ''ogg''\<rparr>
       = Inr (nativeFile
               \<lparr>f_Stat = Inr \<lparr>fi_Name = ''track.mp3'', fi_Mode = ModeRegular, fi_Size = 600\<rparr>,
                f_Readdir = Inl ErrOther, f_data = mp3_data, f_ending = None\<rparr>)"
  using music_lookup_track
  by (simp add: fs_eval music_fs_def)

text \<open>
  Claim C7. The claim: an audio file is listed with its final extension replaced by
  \<open>.ogg\<close>, never with the original extension. The handler replaces the first occurrence
  of the extension text in the name: the audio file \<open>01.mp3-rip.mp3\<close> is listed as
  \<open>01.ogg-rip.mp3\<close>, whose final extension is still \<open>.mp3\<close>.
\<close>

theorem rename_replaces_first_occurrence:
  "dir_ReadDirAll example_detect rips_fs Map.empty \<lparr>dir_dir = ''/rips'', dir_encoder = ''ogg''\<rparr>
     = (Inr [\<lparr>d_Type = DT_File, d_Name = ''01.ogg-rip.mp3''\<rparr>],
        [''/rips/01.ogg-rip.mp3'' \<mapsto> ''/rips/01.mp3-rip.mp3''])
   \<and> isAudio example_detect rips_fs ''/rips/01.mp3-rip.mp3''
   \<and> filepath_Ext ''01.mp3-rip.mp3'' = ''.mp3''
   \<and> filepath_Ext ''01.ogg-rip.mp3'' = ''.mp3''"
  by (simp add: fs_eval rips_fs_def)

lemma os_IsNotExist_Stat:
  "os_IsNotExist (err_of (os_Stat fs p)) = (os_Stat fs p = Inl ErrNotExist)"
  by (auto simp: os_IsNotExist_def err_of_def split: sum.splits)

lemma list_entries_registers:
  assumes "list_entries detect fs d ents out allFiles = (out', allFiles')"
    and "allFiles' k \<noteq> allFiles k"
  shows "\<exists>ent \<in> set ents.
           fi_Mode ent = ModeRegular \<and> isAudio detect fs (filepath_Join d (fi_Name ent))
           \<and> k = filepath_Join d (ogg_name (fi_Name ent))
           \<and> os_Stat fs k = Inl ErrNotExist
           \<and> allFiles' k = Some (filepath_Join d (fi_Name ent))"
  using assms
proof (induction ents arbitrary: out allFiles)
  case Nil
  then show ?case by simp
next
  case (Cons ent ents)
  show ?case
  proof (cases "fi_Mode ent = ModeRegular \<and> isAudio detect fs (filepath_Join d (fi_Name ent))
                \<and> os_Stat fs (filepath_Join d (ogg_name (fi_Name ent))) = Inl ErrNotExist")
    case True
    let ?k = "filepath_Join d (ogg_name (fi_Name ent))"
    let ?m = "allFiles(?k \<mapsto> filepath_Join d (fi_Name ent))"
    from True Cons.prems(1)
    have rest: "list_entries detect fs d ents
                  (out @ [\<lparr>d_Type = DT_File, d_Name = ogg_name (fi_Name ent)\<rparr>]) ?m = (out', allFiles')"
      by (simp add: Let_def os_IsNotExist_Stat)
    show ?thesis
    proof (cases "allFiles' k = ?m k")
      case same: True
      with Cons.prems(2) have "k = ?k" by (auto split: if_splits)
      with same True show ?thesis by simp
    next
      case False
      from Cons.IH[OF rest False] show ?thesis by auto
    qed
  next
    case False
    with Cons.prems(1) obtain out1 where
      "list_entries detect fs d ents out1 allFiles = (out', allFiles')"
      by (auto simp: Let_def os_IsNotExist_Stat split: if_splits FileMode.splits)
    from Cons.IH[OF this Cons.prems(2)] show ?thesis by auto
  qed
qed

lemma dir_ReadDirAll_keeps_claimed:
  assumes "dir_ReadDirAll detect fs allFiles d = (res, allFiles')"
    and "os_Stat fs k \<noteq> Inl ErrNotExist"
  shows "allFiles' k = allFiles k"
proof (rule ccontr)
  assume ch: "allFiles' k \<noteq> allFiles k"
  from assms(1) ch obtain dirf ents out where
    l: "list_entries detect fs (dir_dir d) ents [] allFiles = (out, allFiles')"
    by (auto simp: dir_ReadDirAll_def Let_def split: sum.splits prod.splits)
  from list_entries_registers[OF l ch] assms(2) show False by blast
qed

text \<open>
  Claim C5. Whenever a listing changes the name map at a key, some entry of the directory
  is a regular file classified as audio, the key is the directory joined with its renamed
  name, \<open>os.Stat\<close> of the key reports that nothing exists there, and the key maps to that
  entry's real path. So a key at which something exists keeps its entry: no mapping
  redirecting it is registered.
\<close>

theorem listing_maps_only_unclaimed_audio:
  assumes "dir_ReadDirAll detect fs allFiles d = (res, allFiles')"
  shows "(allFiles' k \<noteq> allFiles k \<longrightarrow>
            (\<exists>dirf ents ent.
               os_Open fs (dir_dir d) = Inr dirf \<and> f_Readdir dirf = Inr ents \<and> ent \<in> set ents
               \<and> fi_Mode ent = ModeRegular
               \<and> isAudio detect fs (filepath_Join (dir_dir d) (fi_Name ent))
               \<and> k = filepath_Join (dir_dir d) (ogg_name (fi_Name ent))
               \<and> os_Stat fs k = Inl ErrNotExist
               \<and> allFiles' k = Some (filepath_Join (dir_dir d) (fi_Name ent))))
       \<and> (os_Stat fs k \<noteq> Inl ErrNotExist \<longrightarrow> allFiles' k = allFiles k)"
proof -
  have reg: "\<exists>dirf ents ent.
               os_Open fs (dir_dir d) = Inr dirf \<and> f_Readdir dirf = Inr ents \<and> ent \<in> set ents
               \<and> fi_Mode ent = ModeRegular
               \<and> isAudio detect fs (filepath_Join (dir_dir d) (fi_Name ent))
               \<and> k = filepath_Join (dir_dir d) (ogg_name (fi_Name ent))
               \<and> os_Stat fs k = Inl ErrNotExist
               \<and> allFiles' k = Some (filepath_Join (dir_dir d) (fi_Name ent))"
    if ch: "allFiles' k \<noteq> allFiles k"
  proof -
    from assms ch obtain dirf ents out where
      o: "os_Open fs (dir_dir d) = Inr dirf" and r: "f_Readdir dirf = Inr ents"
      and l: "list_entries detect fs (dir_dir d) ents [] allFiles = (out, allFiles')"
      by (auto simp: dir_ReadDirAll_def Let_def split: sum.splits prod.splits)
    from list_entries_registers[OF l ch] o r show ?thesis by blast
  qed
  then show ?thesis by blast
qed

theorem listing_maps_only_unclaimed_audio_witness:
  "dir_ReadDirAll example_detect music_fs Map.empty music_dir
     = (Inr [\<lparr>d_Type = DT_File, d_Name = ''track.ogg''\<rparr>,
             \<lparr>d_Type = DT_File, d_Name = ''intro.ogg''\<rparr>,
             \<lparr>d_Type = DT_File, d_Name = ''intro.ogg''\<rparr>,
             \<lparr>d_Type = DT_File, d_Name = ''notes.txt''\<rparr>],
        [''/music/track.ogg'' \<mapsto> ''/music/track.mp3''])
   \<and> [''/music/track.ogg'' \<mapsto> ''/music/track.mp3''] ''/music/track.ogg''
       \<noteq> (Map.empty :: names) ''/music/track.ogg''
   \<and> os_Stat music_fs ''/music/track.ogg'' = Inl ErrNotExist
   \<and> isAudio example_detect music_fs ''/music/track.mp3''
   \<and> os_Stat music_fs ''/music/intro.ogg'' \<noteq> Inl ErrNotExist
   \<and> [''/music/track.ogg'' \<mapsto> ''/music/track.mp3''] ''/music/intro.ogg''
       = (Map.empty :: names) ''/music/intro.ogg''"
proof -
  have ex: "os_Stat music_fs ''/music/intro.ogg'' \<noteq> Inl ErrNotExist"
    by (simp add: fs_eval music_fs_def)
  have "isAudio example_detect music_fs ''/music/track.mp3''"
    by (simp add: fs_eval music_fs_def)
  with listing_maps_only_unclaimed_audio[OF music_listing, of "''/music/track.ogg''"]
       listing_maps_only_unclaimed_audio[OF music_listing, of "''/music/intro.ogg''"]
       music_listing ex
  show ?thesis by simp
qed

lemma open_node_missing:
  "os_Stat fs p = Inl ErrNotExist \<Longrightarrow> open_node fs enc p = Inl fuse_ENOENT"
  by (auto simp: os_Stat_def open_node_def os_Open_def os_IsNotExist_def split: sum.splits)

text \<open>
  Claim C6. \<open>dir.Lookup\<close> joins the directory's path with the name. When \<open>os.Stat\<close> finds
  nothing at the joined path, a mapping for the joined path redirects the lookup to the
  node at the mapped real path, and without a mapping the lookup fails with \<open>ENOENT\<close>.
  When the joined path is not reported missing the node is built from it and the map is
  not consulted.
\<close>

theorem lookup_consults_mapping_when_missing:
  assumes "joined = filepath_Join (dir_dir d) name"
  shows "(os_Stat fs joined = Inl ErrNotExist \<and> allFiles joined = Some real \<longrightarrow>
            dir_Lookup fs allFiles d name = open_node fs (dir_encoder d) real)
       \<and> (os_Stat fs joined = Inl ErrNotExist \<and> allFiles joined = None \<longrightarrow>
            dir_Lookup fs allFiles d name = Inl fuse_ENOENT)
       \<and> (os_Stat fs joined \<noteq> Inl ErrNotExist \<longrightarrow>
            dir_Lookup fs allFiles d name = open_node fs (dir_encoder d) joined)"
  using assms
  by (simp add: dir_Lookup_def Let_def os_IsNotExist_Stat open_node_missing)

theorem lookup_consults_mapping_when_missing_witness:
  "os_Stat music_fs (filepath_Join (dir_dir music_dir) ''track.ogg'') = Inl ErrNotExist
   \<and> dir_Lookup music_fs [''/music/track.ogg'' \<mapsto> ''/music/track.mp3''] music_dir ''track.ogg''
       = open_node music_fs ''ogg'' ''/music/track.mp3''
   \<and> open_node music_fs ''ogg'' ''/music/track.mp3''
       = Inr (FileNode \<lparr>file_name = ''/music/track.mp3'', file_encoder = ''ogg''\<rparr>)
   \<and> os_Stat music_fs (filepath_Join (dir_dir music_dir) ''missing.ogg'') = Inl ErrNotExist
   \<and> dir_Lookup music_fs [''/music/track.ogg'' \<mapsto> ''/music/track.mp3''] music_dir ''missing.ogg''
       = Inl fuse_ENOENT
   \<and> os_Stat music_fs (filepath_Join (dir_dir music_dir) ''intro.ogg'') \<noteq> Inl ErrNotExist
   \<and> dir_Lookup music_fs [''/music/track.ogg'' \<mapsto> ''/music/track.mp3''] music_dir ''intro.ogg''
       = Inr (FileNode \<lparr>file_name = ''/music/intro.ogg'', file_encoder = ''ogg''\<rparr>)"
proof -
  let ?m = "[''/music/track.ogg'' \<mapsto> ''/music/track.mp3'']"
  have j: "filepath_Join (dir_dir music_dir) ''track.ogg'' = ''/music/track.ogg''"
          "filepath_Join (dir_dir music_dir) ''missing.ogg'' = ''/music/missing.ogg''"
          "filepath_Join (dir_dir music_dir) ''intro.ogg'' = ''/music/intro.ogg''"
    by (simp_all add: fs_eval music_dir_def)
  have s: "os_Stat music_fs ''/music/track.ogg'' = Inl ErrNotExist"
          "os_Stat music_fs ''/music/missing.ogg'' = Inl ErrNotExist"
          "os_Stat music_fs ''/music/intro.ogg'' \<noteq> Inl ErrNotExist"
    by (simp_all add: fs_eval music_fs_def)
  have n: "open_node music_fs ''ogg'' ''/music/track.mp3''
             = Inr (FileNode \<lparr>file_name = ''/music/track.mp3'', file_encoder = ''ogg''\<rparr>)"
          "open_node music_fs ''ogg'' ''/music/intro.ogg''
             = Inr (FileNode \<lparr>file_name = ''/music/intro.ogg'', file_encoder = ''ogg''\<rparr>)"
    by (simp_all add: fs_eval music_fs_def)
  from lookup_consults_mapping_when_missing[OF j(1)[symmetric], of music_fs ?m "''/music/track.mp3''"]
       lookup_consults_mapping_when_missing[OF j(2)[symmetric], of music_fs ?m]
       lookup_consults_mapping_when_missing[OF j(3)[symmetric], of music_fs ?m]
       j s n
  show ?thesis by (simp add: music_dir_def)
qed

lemma list_entries_out:
  "fst (list_entries detect fs d ents out allFiles) =
     out @ map (\<lambda>ent. \<lparr>d_Type = (if fi_Mode ent = ModeDir then DT_Dir else DT_File),
                      d_Name = (if fi_Mode ent = ModeRegular
                                    \<and> isAudio detect fs (filepath_Join d (fi_Name ent))
                                then ogg_name (fi_Name ent) else fi_Name ent)\<rparr>)
             (filter (\<lambda>ent. fi_Mode ent = ModeDir \<or> fi_Mode ent = ModeRegular) ents)"
proof (induction ents arbitrary: out allFiles)
  case Nil
  then show ?case by simp
next
  case (Cons ent ents)
  show ?case
    by (cases "fi_Mode ent") (simp_all add: Cons.IH Let_def)
qed

lemma two_positions:
  assumes "i < length xs" "j < length xs" "i \<noteq> j" "Q (xs ! i)" "Q (xs ! j)"
  shows "2 \<le> length (filter Q xs)"
proof -
  have "{i, j} \<subseteq> {k. k < length xs \<and> Q (xs ! k)}" using assms by simp
  then have "card {i, j} \<le> card {k. k < length xs \<and> Q (xs ! k)}"
    by (intro card_mono) simp_all
  with assms(3) show ?thesis by (simp add: length_filter_conv_card)
qed

lemma ogg_name_target: "filepath_Ext name = ''.ogg'' \<Longrightarrow> ogg_name name = name"
  by (simp add: ogg_name_def strings_Replace1_def)

text \<open>
  Claim C10, as stated: a directory with an audio file and a real file at its renamed path
  is listed with two entries of that renamed name. It fails in \<open>/albums\<close>, where the file
  at the renamed path \<open>a.ogg.flac\<close> is itself an audio file and is listed as \<open>a.ogg.ogg\<close>,
  and in \<open>/pipes\<close>, where the file at the renamed path \<open>intro.ogg\<close> is a named pipe, which
  the listing skips: in both listings the renamed name occurs once.
\<close>

theorem listing_without_duplicate_counterexample:
  "dir_ReadDirAll example_detect albums_fs Map.empty \<lparr>dir_dir = ''/albums'', dir_encoder = ''ogg''\<rparr>
     = (Inr [\<lparr>d_Type = DT_File, d_Name = ''a.ogg.flac''\<rparr>,
             \<lparr>d_Type = DT_File, d_Name = ''a.ogg.ogg''\<rparr>],
        [''/albums/a.ogg.ogg'' \<mapsto> ''/albums/a.ogg.flac''])
   \<and> isAudio example_detect albums_fs ''/albums/a.flac.flac''
   \<and> filepath_Ext ''a.flac.flac'' = ''.flac''
   \<and> ogg_name ''a.flac.flac'' = ''a.ogg.flac''
   \<and> os_Stat albums_fs ''/albums/a.ogg.flac''
       = Inr \<lparr>fi_Name = ''a.ogg.flac'', fi_Mode = ModeRegular, fi_Size = 512\<rparr>
   \<and> count_list [''a.ogg.flac'', ''a.ogg.ogg''] ''a.ogg.flac'' = 1
   \<and> dir_ReadDirAll example_detect pipes_fs Map.empty \<lparr>dir_dir = ''/pipes'', dir_encoder = ''ogg''\<rparr>
     = (Inr [\<lparr>d_Type = DT_File, d_Name = ''intro.ogg''\<rparr>], Map.empty)
   \<and> isAudio example_detect pipes_fs ''/pipes/intro.mp3''
   \<and> filepath_Ext ''intro.mp3'' = ''.mp3''
   \<and> ogg_name ''intro.mp3'' = ''intro.ogg''
   \<and> os_Stat pipes_fs ''/pipes/intro.ogg''
       = Inr \<lparr>fi_Name = ''intro.ogg'', fi_Mode = ModeOther, fi_Size = 0\<rparr>
   \<and> count_list [''intro.ogg''] ''intro.ogg'' = 1"
  by (simp add: fs_eval albums_fs_def pipes_fs_def named_pipe_def flac_data_def)

text \<open>
  Claim C10, amended. When the directory holds an audio regular file and, as another
  entry, a regular file or directory that exists at the renamed path and whose name
  carries the extension \<open>.ogg\<close> (as with \<open>intro.mp3\<close> and \<open>intro.ogg\<close>), the listing has at
  least two entries of that name, and the name map is unchanged at the renamed path.
\<close>

theorem listing_shows_renamed_and_literal:
  assumes listing: "dir_ReadDirAll detect fs allFiles d = (res, allFiles')"
    and opened: "os_Open fs (dir_dir d) = Inr dirf" and entries: "f_Readdir dirf = Inr ents"
    and pos: "i < length ents" "j < length ents" "i \<noteq> j"
    and audio: "fi_Mode (ents ! i) = ModeRegular"
               "isAudio detect fs (filepath_Join (dir_dir d) (fi_Name (ents ! i)))"
    and literal: "fi_Name (ents ! j) = ogg_name (fi_Name (ents ! i))"
                 "fi_Mode (ents ! j) = ModeRegular \<or> fi_Mode (ents ! j) = ModeDir"
    and target: "filepath_Ext (fi_Name (ents ! j)) = ''.ogg''"
    and real: "os_Stat fs (filepath_Join (dir_dir d) (fi_Name (ents ! j))) = Inr info"
  shows "(\<exists>out. res = Inr out
              \<and> 2 \<le> length (filter (\<lambda>e. d_Name e = fi_Name (ents ! j)) out))
       \<and> allFiles' (filepath_Join (dir_dir d) (fi_Name (ents ! j)))
           = allFiles (filepath_Join (dir_dir d) (fi_Name (ents ! j)))"
proof -
  let ?r = "fi_Name (ents ! j)"
  let ?name = "\<lambda>ent. if fi_Mode ent = ModeRegular
                          \<and> isAudio detect fs (filepath_Join (dir_dir d) (fi_Name ent))
                       then ogg_name (fi_Name ent) else fi_Name ent"
  let ?Q = "\<lambda>ent. (fi_Mode ent = ModeDir \<or> fi_Mode ent = ModeRegular) \<and> ?name ent = ?r"
  from listing opened entries
  have res: "res = Inr (fst (list_entries detect fs (dir_dir d) ents [] allFiles))"
    and names: "allFiles' = snd (list_entries detect fs (dir_dir d) ents [] allFiles)"
    by (auto simp: dir_ReadDirAll_def split_def Let_def)
  have qi: "?Q (ents ! i)" using audio literal by simp
  have qj: "?Q (ents ! j)" using literal ogg_name_target[OF target] by auto
  have "2 \<le> length (filter ?Q ents)"
    using pos qi qj by (rule two_positions)
  also have "length (filter ?Q ents)
      = length (filter (\<lambda>e. d_Name e = ?r) (fst (list_entries detect fs (dir_dir d) ents [] allFiles)))"
    by (simp add: list_entries_out filter_map comp_def)
  finally have two: "\<exists>out. res = Inr out \<and> 2 \<le> length (filter (\<lambda>e. d_Name e = ?r) out)"
    using res by simp
  have "os_Stat fs (filepath_Join (dir_dir d) ?r) \<noteq> Inl ErrNotExist" using real by simp
  from dir_ReadDirAll_keeps_claimed[OF listing this]
  have "allFiles' (filepath_Join (dir_dir d) ?r) = allFiles (filepath_Join (dir_dir d) ?r)" .
  with two show ?thesis by simp
qed

theorem listing_shows_renamed_and_literal_witness:
  "dir_ReadDirAll example_detect music_fs Map.empty music_dir
     = (Inr [\<lparr>d_Type = DT_File, d_Name = ''track.ogg''\<rparr>,
             \<lparr>d_Type = DT_File, d_Name = ''intro.ogg''\<rparr>,
             \<lparr>d_Type = DT_File, d_Name = ''intro.ogg''\<rparr>,
             \<lparr>d_Type = DT_File, d_Name = ''notes.txt''\<rparr>],
        [''/music/track.ogg'' \<mapsto> ''/music/track.mp3''])
   \<and> isAudio example_detect music_fs ''/music/intro.mp3''
   \<and> ogg_name ''intro.mp3'' = ''intro.ogg''
   \<and> filepath_Ext ''intro.ogg'' = ''.ogg''
   \<and> os_Stat music_fs ''/music/intro.ogg''
       = Inr \<lparr>fi_Name = ''intro.ogg'', fi_Mode = ModeRegular, fi_Size = 800\<rparr>
   \<and> (2::nat) \<le> length (filter (\<lambda>e. d_Name e = ''intro.ogg'')
                      [\<lparr>d_Type = DT_File, d_Name = ''track.ogg''\<rparr>,
                       \<lparr>d_Type = DT_File, d_Name = ''intro.ogg''\<rparr>,
                       \<lparr>d_Type = DT_File, d_Name = ''intro.ogg''\<rparr>,
                       \<lparr>d_Type = DT_File, d_Name = ''notes.txt''\<rparr>])
   \<and> [''/music/track.ogg'' \<mapsto> ''/music/track.mp3''] ''/music/intro.ogg'' = None"
proof -
  let ?ents = "[i_info (regular_file ''track.mp3'' mp3_data),
                i_info (regular_file ''intro.mp3'' mp3_data),
                i_info (regular_file ''intro.ogg'' ogg_data),
                i_info (regular_file ''notes.txt'' [])]"
  have opened: "os_Open music_fs (dir_dir music_dir)
                  = Inr \<lparr>f_Stat = Inr \<lparr>fi_Name = ''music'', fi_Mode = ModeDir, fi_Size = 4096\<rparr>,
                         f_Readdir = Inr ?ents, f_data = [], f_ending = Some ErrOther\<rparr>"
    by (simp add: fs_eval music_fs_def music_dir_def)
  have audio: "isAudio example_detect music_fs
                 (filepath_Join (dir_dir music_dir) (fi_Name (?ents ! 1)))"
    by (simp add: fs_eval music_fs_def music_dir_def)
  have literal: "fi_Name (?ents ! 2) = ogg_name (fi_Name (?ents ! 1))"
    by (simp add: fs_eval)
  have target: "filepath_Ext (fi_Name (?ents ! 2)) = ''.ogg''"
    by (simp add: fs_eval)
  have real: "os_Stat music_fs (filepath_Join (dir_dir music_dir) (fi_Name (?ents ! 2)))
                = Inr \<lparr>fi_Name = ''intro.ogg'', fi_Mode = ModeRegular, fi_Size = 800\<rparr>"
    by (simp add: fs_eval music_fs_def music_dir_def)
  from listing_shows_renamed_and_literal[where i = 1 and j = 2,
         OF music_listing opened _ _ _ _ _ audio literal _ target real]
  have "2 \<le> length (filter (\<lambda>e. d_Name e = fi_Name (?ents ! 2))
                      [\<lparr>d_Type = DT_File, d_Name = ''track.ogg''\<rparr>,
                       \<lparr>d_Type = DT_File, d_Name = ''intro.ogg''\<rparr>,
                       \<lparr>d_Type = DT_File, d_Name = ''intro.ogg''\<rparr>,
                       \<lparr>d_Type = DT_File, d_Name = ''notes.txt''\<rparr>])"
    by (simp add: regular_file_def Let_def)
  then have two: "(2::nat) \<le> length (filter (\<lambda>e. d_Name e = ''intro.ogg'')
                      [\<lparr>d_Type = DT_File, d_Name = ''track.ogg''\<rparr>,
                       \<lparr>d_Type = DT_File, d_Name = ''intro.ogg''\<rparr>,
                       \<lparr>d_Type = DT_File, d_Name = ''intro.ogg''\<rparr>,
                       \<lparr>d_Type = DT_File, d_Name = ''notes.txt''\<rparr>])"
    by (simp add: regular_file_def Let_def)
  have a: "isAudio example_detect music_fs ''/music/intro.mp3''"
    by (simp add: fs_eval music_fs_def)
  have b: "ogg_name ''intro.mp3'' = ''intro.ogg''" "filepath_Ext ''intro.ogg'' = ''.ogg''"
    by (simp_all add: fs_eval)
  have c: "os_Stat music_fs ''/music/intro.ogg''
            = Inr \<lparr>fi_Name = ''intro.ogg'', fi_Mode = ModeRegular, fi_Size = 800\<rparr>"
    by (simp add: fs_eval music_fs_def)
  from music_listing two a b c show ?thesis by simp
qed

end
